theory Spec2Isabelle
  imports Complex_Main
begin

section \<open>Python values\<close>

text \<open>
  A JSON number arrives as a Python \<open>int\<close> or a Python \<open>float\<close>. An \<open>int\<close> is
  unbounded; a finite \<open>float\<close> is the rational it denotes. Comparison, equality and
  \<open>int(x)\<close> are exact on these values in Python, so they are computed on the rationals.
  What binary64 adds on top (the rounding of every arithmetic result, the decimal text
  of a float, and the C library's \<open>atan2\<close>) is the \<open>platform\<close>: every function of the
  converter that touches it takes it as its first argument, and every theorem below
  holds for any platform.
\<close>

datatype number = PyInt int | PyFloat rat

record platform =
  fl :: "rat \<Rightarrow> rat"  \<comment> \<open>the binary64 value an exact result is rounded to\<close>
  float_repr :: "rat \<Rightarrow> string"  \<comment> \<open>\<open>str(x)\<close> of a float\<close>
  float_fmt1 :: "rat \<Rightarrow> string"  \<comment> \<open>\<open>format(x, ".1f")\<close> of a float\<close>
  libm_atan2 :: "rat \<Rightarrow> rat \<Rightarrow> rat"  \<comment> \<open>\<open>math.atan2(y, x)\<close>\<close>
  libm_pi :: rat  \<comment> \<open>\<open>math.pi\<close>\<close>

fun num_val :: "number \<Rightarrow> rat" where
  "num_val (PyInt i) = of_int i"
| "num_val (PyFloat q) = q"

fun to_float :: "platform \<Rightarrow> number \<Rightarrow> rat" where
  "to_float P (PyInt i) = fl P (of_int i)"
| "to_float P (PyFloat q) = q"

fun py_mul :: "platform \<Rightarrow> number \<Rightarrow> number \<Rightarrow> number" where
  "py_mul P (PyInt i) (PyInt j) = PyInt (i * j)"
| "py_mul P x y = PyFloat (fl P (to_float P x * to_float P y))"

fun py_sub :: "platform \<Rightarrow> number \<Rightarrow> number \<Rightarrow> number" where
  "py_sub P (PyInt i) (PyInt j) = PyInt (i - j)"
| "py_sub P x y = PyFloat (fl P (to_float P x - to_float P y))"

definition py_lt :: "number \<Rightarrow> number \<Rightarrow> bool" where
  "py_lt x y = (num_val x < num_val y)"

definition py_eq :: "number \<Rightarrow> number \<Rightarrow> bool" where
  "py_eq x y = (num_val x = num_val y)"

text \<open>\<open>int(x)\<close>: the identity on an int, truncation toward zero on a float.\<close>

fun py_int :: "number \<Rightarrow> int" where
  "py_int (PyInt i) = i"
| "py_int (PyFloat q) = (if q < 0 then - \<lfloor>- q\<rfloor> else \<lfloor>q\<rfloor>)"

subsection \<open>Text of numbers\<close>

definition digit_char :: "nat \<Rightarrow> char" where
  "digit_char d = ''0123456789abcdef'' ! d"

fun show_nat :: "nat \<Rightarrow> string" where
  "show_nat n = (if n < 10 then [digit_char n] else show_nat (n div 10) @ [digit_char (n mod 10)])"

declare show_nat.simps [simp del]

definition show_int :: "int \<Rightarrow> string" where
  "show_int i = (if i < 0 then ''-'' @ show_nat (nat (- i)) else show_nat (nat i))"




text \<open>\<open>str(x)\<close>, which is what an f-string's \<open>{x}\<close> inserts.\<close>

fun py_str :: "platform \<Rightarrow> number \<Rightarrow> string" where
  "py_str P (PyInt i) = show_int i"
| "py_str P (PyFloat q) = float_repr P q"

text \<open>\<open>format(x, ".1f")\<close>: an int is converted to a float first.\<close>

definition py_fmt1 :: "platform \<Rightarrow> number \<Rightarrow> string" where
  "py_fmt1 P x = float_fmt1 P (to_float P x)"

fun join :: "string \<Rightarrow> string list \<Rightarrow> string" where
  "join sep [] = []"
| "join sep [x] = x"
| "join sep (x # y # ys) = x @ sep @ join sep (y # ys)"

section \<open>Color\<close>

record Color =
  col_r :: number
  col_g :: number
  col_b :: number
  col_a :: number

text \<open>\<open>int(self.r * 255)\<close>, the step \<open>to_css\<close> and \<open>to_hex\<close> take on each channel.\<close>

definition scale255 :: "platform \<Rightarrow> number \<Rightarrow> int" where
  "scale255 P v = py_int (py_mul P v (PyInt 255))"

definition to_css :: "platform \<Rightarrow> Color \<Rightarrow> string" where
  "to_css P c =
     (let r = scale255 P (col_r c);
          g = scale255 P (col_g c);
          b = scale255 P (col_b c)
      in if py_lt (col_a c) (PyFloat 1)
         then ''rgba('' @ show_int r @ '', '' @ show_int g @ '', '' @ show_int b @ '', ''
                @ py_str P (col_a c) @ '')''
         else ''rgb('' @ show_int r @ '', '' @ show_int g @ '', '' @ show_int b @ '')'')"


text \<open>The dictionary \<open>{"r": .., "g": .., "b": .., "a": ..}\<close> of the document; any key may be absent.\<close>

record color_data =
  cd_r :: "number option"
  cd_g :: "number option"
  cd_b :: "number option"
  cd_a :: "number option"

definition get_or :: "'a option \<Rightarrow> 'a \<Rightarrow> 'a" where
  "get_or v d = (case v of None \<Rightarrow> d | Some x \<Rightarrow> x)"

definition parse_color :: "color_data \<Rightarrow> Color" where
  "parse_color cd =
     \<lparr> col_r = get_or (cd_r cd) (PyInt 0), col_g = get_or (cd_g cd) (PyInt 0),
       col_b = get_or (cd_b cd) (PyInt 0), col_a = get_or (cd_a cd) (PyFloat 1) \<rparr>"

section \<open>The document model\<close>

text \<open>
  A node, paint or effect is a JSON object: a key may be absent, and the code reads every
  key with a default. A field of type \<open>option\<close> is a key whose absence the code tells
  from every value; a field of a list or record type is a key the code only reads as
  \<open>d.get(key, [])\<close> or \<open>d.get(key, {})\<close>, where an absent key is the empty value.
\<close>

record vec =
  v_x :: "number option"
  v_y :: "number option"

record gradient_stop =
  gs_color :: color_data
  gs_position :: "number option"

record paint =
  p_type :: "string option"
  p_visible :: "bool option"
  p_color :: "color_data option"
  p_opacity :: "number option"
  gradientStops :: "gradient_stop list option"
  gradientHandlePositions :: "vec list option"

record effect =
  e_type :: "string option"
  e_visible :: "bool option"
  e_offset :: vec
  e_radius :: "number option"
  e_spread :: "number option"
  e_color :: color_data

record bbox =
  b_x :: "number option"
  b_y :: "number option"
  b_width :: "number option"
  b_height :: "number option"

record text_style =
  fontFamily :: "string option"
  fontSize :: "number option"
  fontWeight :: "number option"
  lineHeightPx :: "number option"
  lineHeightPercentFontSize :: "number option"
  letterSpacing :: "number option"
  textAlignHorizontal :: "string option"
  textDecoration :: "string option"
  textCase :: "string option"

record node_props =
  n_type :: "string option"
  n_id :: string
  n_name :: string
  n_visible :: "bool option"
  absoluteBoundingBox :: "bbox option"
  fills :: "paint list"
  strokes :: "paint list"
  strokeWeight :: "number option"
  effects :: "effect list"
  opacity :: "number option"
  cornerRadius :: "number option"
  rectangleCornerRadii :: "number list option"
  corner_fields :: "string \<Rightarrow> number option"
    \<comment> \<open>the node's dictionary at the per-corner radius keys\<close>
  characters :: string
  style :: text_style

datatype node = Node (props: node_props) (children: "node list")

definition empty_color :: color_data where
  "empty_color = \<lparr> cd_r = None, cd_g = None, cd_b = None, cd_a = None \<rparr>"

text \<open>The truth value of a dictionary: false when it has no key.\<close>

definition bbox_truthy :: "bbox \<Rightarrow> bool" where
  "bbox_truthy b = (b_x b \<noteq> None \<or> b_y b \<noteq> None \<or> b_width b \<noteq> None \<or> b_height b \<noteq> None)"

definition paint_truthy :: "paint \<Rightarrow> bool" where
  "paint_truthy p =
     (p_type p \<noteq> None \<or> p_visible p \<noteq> None \<or> p_color p \<noteq> None \<or> p_opacity p \<noteq> None
      \<or> gradientStops p \<noteq> None \<or> gradientHandlePositions p \<noteq> None)"

definition paint_visible :: "paint \<Rightarrow> bool" where
  "paint_visible p = get_or (p_visible p) True"

section \<open>Style resolvers\<close>

subsection \<open>Gradients\<close>

text \<open>\<open>math.atan2(y2 - y1, x2 - x1) * 180 / math.pi + 90\<close>, every step rounded.\<close>

definition gradient_angle :: "platform \<Rightarrow> number \<Rightarrow> number \<Rightarrow> number \<Rightarrow> number \<Rightarrow> number" where
  "gradient_angle P x1 y1 x2 y2 =
     (let t = libm_atan2 P (to_float P (py_sub P y2 y1)) (to_float P (py_sub P x2 x1));
          t180 = fl P (t * to_float P (PyInt 180));
          deg = fl P (t180 / libm_pi P)
      in PyFloat (fl P (deg + to_float P (PyInt 90))))"

definition stop_string :: "platform \<Rightarrow> gradient_stop \<Rightarrow> string" where
  "stop_string P s =
     (let color = parse_color (gs_color s);
          position = py_mul P (get_or (gs_position s) (PyInt 0)) (PyInt 100)
      in to_css P color @ '' '' @ py_fmt1 P position @ ''%'')"

definition parse_gradient :: "platform \<Rightarrow> paint \<Rightarrow> string" where
  "parse_gradient P gradient_fill =
     (let stops = get_or (gradientStops gradient_fill) [];
          handles = get_or (gradientHandlePositions gradient_fill) []
      in if p_type gradient_fill = Some ''GRADIENT_LINEAR'' \<and> 2 \<le> length handles
         then (let x1 = get_or (v_x (handles ! 0)) (PyInt 0);
                   y1 = get_or (v_y (handles ! 0)) (PyInt 0);
                   x2 = get_or (v_x (handles ! 1)) (PyInt 1);
                   y2 = get_or (v_y (handles ! 1)) (PyInt 1);
                   angle = gradient_angle P x1 y1 x2 y2
               in ''linear-gradient('' @ py_fmt1 P angle @ ''deg, ''
                    @ join '', '' (map (stop_string P) stops) @ '')'')
         else ''transparent'')"

subsection \<open>Fills\<close>

definition solid_css :: "platform \<Rightarrow> paint \<Rightarrow> string" where
  "solid_css P fill =
     (let color = parse_color (get_or (p_color fill) empty_color);
          opacity = get_or (p_opacity fill) (PyFloat 1)
      in to_css P (color \<lparr> col_a := py_mul P (col_a color) opacity \<rparr>))"

definition image_css :: "(string \<Rightarrow> string option) \<Rightarrow> string \<Rightarrow> string" where
  "image_css image_fills node_id =
     (case image_fills node_id of
        Some url \<Rightarrow> ''url('' @ [CHR 0x27] @ url @ [CHR 0x27] @ '')''
      | None \<Rightarrow> ''#cccccc'')"

text \<open>
  \<open>get_fills_css\<close> calls itself on the one-element list of the first visible fill. The
  call need not return, so the function is partial: \<open>None\<close> is a call that never
  returns (which CPython ends by raising \<open>RecursionError\<close>).
\<close>

partial_function (option) get_fills_css ::
  "platform \<Rightarrow> (string \<Rightarrow> string option) \<Rightarrow> paint list \<Rightarrow> string \<Rightarrow> string option" where
  "get_fills_css P image_fills fs node_id =
     (if fs = [] \<or> \<not> list_ex paint_visible fs then Some ''transparent''
      else if length (filter paint_visible fs) = 1
      then (if p_type (hd (filter paint_visible fs)) = Some ''SOLID''
            then Some (solid_css P (hd (filter paint_visible fs)))
            else if p_type (hd (filter paint_visible fs)) = Some ''GRADIENT_LINEAR''
            then Some (parse_gradient P (hd (filter paint_visible fs)))
            else if p_type (hd (filter paint_visible fs)) = Some ''IMAGE''
            then Some (image_css image_fills node_id)
            else get_fills_css P image_fills [hd (filter paint_visible fs)] node_id)
      else get_fills_css P image_fills [hd (filter paint_visible fs)] node_id)"

declare get_fills_css.simps [code]

text \<open>The paint kinds \<open>get_fills_css\<close> has a branch for.\<close>

definition supported_kind :: "paint \<Rightarrow> bool" where
  "supported_kind f =
     (p_type f = Some ''SOLID'' \<or> p_type f = Some ''GRADIENT_LINEAR'' \<or> p_type f = Some ''IMAGE'')"

subsection \<open>Strokes\<close>

definition get_strokes_css :: "platform \<Rightarrow> node_props \<Rightarrow> string \<times> string \<times> string" where
  "get_strokes_css P nd =
     (if strokes nd = [] \<or> \<not> list_ex paint_visible (strokes nd) then ('''', '''', '''')
      else (let stroke = hd (filter paint_visible (strokes nd))
            in if \<not> paint_truthy stroke then ('''', '''', '''')
               else (let stroke_weight = get_or (strokeWeight nd) (PyInt 1);
                         border_width = py_str P stroke_weight @ ''px'';
                         border_color =
                           (if p_type stroke = Some ''SOLID'' then solid_css P stroke
                            else ''#000000'')
                     in (border_width, ''solid'', border_color))))"

subsection \<open>Effects\<close>

definition shadow_string :: "platform \<Rightarrow> effect \<Rightarrow> string" where
  "shadow_string P e =
     (let x = get_or (v_x (e_offset e)) (PyInt 0);
          y = get_or (v_y (e_offset e)) (PyInt 0);
          radius = get_or (e_radius e) (PyInt 0);
          spread = get_or (e_spread e) (PyInt 0);
          color = parse_color (e_color e)
      in py_str P x @ ''px '' @ py_str P y @ ''px '' @ py_str P radius @ ''px ''
           @ py_str P spread @ ''px '' @ to_css P color)"

fun get_effects_css :: "platform \<Rightarrow> effect list \<Rightarrow> string list" where
  "get_effects_css P [] = []"
| "get_effects_css P (e # es) =
     (if \<not> get_or (e_visible e) True then get_effects_css P es
      else if e_type e = Some ''DROP_SHADOW'' \<or> e_type e = Some ''INNER_SHADOW''
      then (if e_type e = Some ''INNER_SHADOW'' then ''inset '' @ shadow_string P e
            else shadow_string P e) # get_effects_css P es
      else if e_type e = Some ''LAYER_BLUR''
      then (''blur('' @ py_str P (get_or (e_radius e) (PyInt 0)) @ ''px)'') # get_effects_css P es
      else get_effects_css P es)"

text \<open>\<open>sub in s\<close> on strings.\<close>

fun contains :: "string \<Rightarrow> string \<Rightarrow> bool" where
  "contains sub [] = (sub = [])"
| "contains sub (c # cs) = (take (length sub) (c # cs) = sub \<or> contains sub cs)"

subsection \<open>Corner radius\<close>

definition corner_names :: "(string \<times> string list) list" where
  "corner_names =
     [(''topLeft'', [''rectangleCornerTopLeftRadius'', ''topLeftRadius'', ''cornerTopLeftRadius'']),
      (''topRight'', [''rectangleCornerTopRightRadius'', ''topRightRadius'', ''cornerTopRightRadius'']),
      (''bottomRight'', [''rectangleCornerBottomRightRadius'', ''bottomRightRadius'',
         ''cornerBottomRightRadius'']),
      (''bottomLeft'', [''rectangleCornerBottomLeftRadius'', ''bottomLeftRadius'',
         ''cornerBottomLeftRadius''])]"

definition corners :: "string list" where
  "corners = [''topLeft'', ''topRight'', ''bottomRight'', ''bottomLeft'']"

text \<open>The inner loop: the value at the first name the node has, if it has any.\<close>

fun first_present :: "(string \<Rightarrow> number option) \<Rightarrow> string list \<Rightarrow> number option" where
  "first_present nd [] = None"
| "first_present nd (prop_name # rest) =
     (case nd prop_name of Some radius \<Rightarrow> Some radius | None \<Rightarrow> first_present nd rest)"

definition corner_lookup :: "node_props \<Rightarrow> number option list" where
  "corner_lookup nd =
     map (\<lambda>corner. first_present (corner_fields nd) (get_or (map_of corner_names corner) [])) corners"

text \<open>What both the array form and the alias form return for four radii.\<close>

definition four_radii_css :: "platform \<Rightarrow> number list \<Rightarrow> string" where
  "four_radii_css P radii =
     (if list_all (\<lambda>r. py_eq r (radii ! 0)) radii
      then (if py_eq (radii ! 0) (PyInt 0) then ''0px'' else py_str P (radii ! 0) @ ''px'')
      else py_str P (radii ! 0) @ ''px '' @ py_str P (radii ! 1) @ ''px ''
             @ py_str P (radii ! 2) @ ''px '' @ py_str P (radii ! 3) @ ''px'')"

definition alias_border_radius :: "platform \<Rightarrow> node_props \<Rightarrow> string" where
  "alias_border_radius P nd =
     (let found = corner_lookup nd;
          radii = map (\<lambda>v. get_or v (PyInt 0)) found;
          has_any_radius = list_ex (\<lambda>v. v \<noteq> None) found
      in if \<not> has_any_radius then ''0px'' else four_radii_css P radii)"

definition get_border_radius :: "platform \<Rightarrow> node_props \<Rightarrow> string" where
  "get_border_radius P nd =
     (case cornerRadius nd of
        Some radius \<Rightarrow> py_str P radius @ ''px''
      | None \<Rightarrow>
          (case rectangleCornerRadii nd of
             Some radii \<Rightarrow>
               if length radii = 4 then four_radii_css P radii else alias_border_radius P nd
           | None \<Rightarrow> alias_border_radius P nd))"

subsection \<open>Text styles\<close>

text \<open>A Python dictionary keeps insertion order; storing under a key it has keeps the key's place.\<close>

fun dict_set :: "string \<Rightarrow> string \<Rightarrow> (string \<times> string) list \<Rightarrow> (string \<times> string) list" where
  "dict_set k v [] = [(k, v)]"
| "dict_set k v ((k', v') # d) = (if k' = k then (k', v) # d else (k', v') # dict_set k v d)"

definition dict_update :: "(string \<times> string) list \<Rightarrow> (string \<times> string) list \<Rightarrow> (string \<times> string) list" where
  "dict_update d e = fold (\<lambda>(k, v). dict_set k v) e d"

definition lower_char :: "char \<Rightarrow> char" where
  "lower_char c =
     (let n = (of_char c :: nat) in if 65 \<le> n \<and> n \<le> 90 then char_of (n + 32) else c)"

text \<open>\<open>s.lower()\<close> on the ASCII letters, which are all that the document's enumerations use.\<close>

definition py_lower :: "string \<Rightarrow> string" where
  "py_lower s = map lower_char s"

definition squote :: string where
  "squote = [CHR 0x27]"

definition dquote :: string where
  "dquote = [CHR 0x22]"

definition newline :: string where
  "newline = [CHR 0x0A]"

text \<open>
  The styles of a text node. \<open>None\<close> is a call that never returns, which can only come
  from \<open>get_fills_css\<close>. The method also adds the font family to \<open>self.fonts_used\<close>, a set
  that the converter only reads when it builds the document head; the markup returned
  here does not depend on it, and it is left out.
\<close>

definition get_text_styles ::
  "platform \<Rightarrow> (string \<Rightarrow> string option) \<Rightarrow> node_props \<Rightarrow> (string \<times> string) list option" where
  "get_text_styles P image_fills nd =
     (let st = style nd;
          font_family = get_or (fontFamily st) ''Arial'';
          s1 = dict_set ''font-family'' (squote @ font_family @ squote @ '', sans-serif'') [];
          s2 = dict_set ''font-size'' (py_str P (get_or (fontSize st) (PyInt 16)) @ ''px'') s1;
          s3 = dict_set ''font-weight'' (py_str P (get_or (fontWeight st) (PyInt 400))) s2;
          s4 = (case lineHeightPx st of
                  Some line_height \<Rightarrow> dict_set ''line-height'' (py_str P line_height @ ''px'') s3
                | None \<Rightarrow>
                    (case lineHeightPercentFontSize st of
                       Some line_height_percent \<Rightarrow>
                         dict_set ''line-height'' (py_str P line_height_percent @ ''%'') s3
                     | None \<Rightarrow> s3));
          s5 = (case letterSpacing st of
                  Some letter_spacing \<Rightarrow>
                    dict_set ''letter-spacing'' (py_str P letter_spacing @ ''px'') s4
                | None \<Rightarrow> s4);
          text_align = py_lower (get_or (textAlignHorizontal st) ''LEFT'');
          s6 = dict_set ''text-align''
                 (if text_align = ''justified'' then ''justify'' else text_align) s5;
          s7 = (if textDecoration st = Some ''UNDERLINE''
                then dict_set ''text-decoration'' ''underline'' s6
                else if textDecoration st = Some ''STRIKETHROUGH''
                then dict_set ''text-decoration'' ''line-through'' s6
                else s6);
          s8 = (if textCase st = Some ''UPPER'' then dict_set ''text-transform'' ''uppercase'' s7
                else if textCase st = Some ''LOWER'' then dict_set ''text-transform'' ''lowercase'' s7
                else if textCase st = Some ''TITLE'' then dict_set ''text-transform'' ''capitalize'' s7
                else s7)
      in if fills nd \<noteq> []
         then (case get_fills_css P image_fills (fills nd) '''' of
                 None \<Rightarrow> None
               | Some color \<Rightarrow> Some (dict_set ''color'' color s8))
         else Some s8)"

section \<open>The tree walker\<close>

text \<open>
  What a call can raise: \<open>RecursionError\<close> when \<open>get_fills_css\<close> never returns, and
  \<open>AttributeError\<close> when \<open>node_type.lower()\<close> is reached with no \<open>"type"\<close> key.
\<close>

datatype error = RecursionError | AttributeError

definition empty_bbox :: bbox where
  "empty_bbox = \<lparr> b_x = None, b_y = None, b_width = None, b_height = None \<rparr>"

text \<open>\<open>node.get("absoluteBoundingBox", {})\<close>; a \<open>null\<close> box is as falsy as an empty one.\<close>

definition node_bbox :: "node_props \<Rightarrow> bbox" where
  "node_bbox nd = get_or (absoluteBoundingBox nd) empty_bbox"

definition node_visible :: "node_props \<Rightarrow> bool" where
  "node_visible nd = get_or (n_visible nd) True"

text \<open>\<open>if parent_box:\<close> holds for a box that is neither \<open>None\<close> nor empty.\<close>

definition rel_pos :: "platform \<Rightarrow> number \<Rightarrow> bbox option \<Rightarrow> (bbox \<Rightarrow> number option) \<Rightarrow> number" where
  "rel_pos P v parent_box coord =
     (case parent_box of
        Some pb \<Rightarrow> if bbox_truthy pb then py_sub P v (get_or (coord pb) (PyInt 0)) else v
      | None \<Rightarrow> v)"

definition base_styles :: "platform \<Rightarrow> bbox \<Rightarrow> bbox option \<Rightarrow> (string \<times> string) list" where
  "base_styles P bb parent_box =
     (let x = get_or (b_x bb) (PyInt 0);
          y = get_or (b_y bb) (PyInt 0);
          width = get_or (b_width bb) (PyInt 0);
          height = get_or (b_height bb) (PyInt 0);
          rel_x = rel_pos P x parent_box b_x;
          rel_y = rel_pos P y parent_box b_y
      in [(''position'', ''absolute''),
          (''left'', py_str P rel_x @ ''px''),
          (''top'', py_str P rel_y @ ''px''),
          (''width'', py_str P width @ ''px''),
          (''height'', py_str P height @ ''px'')])"

definition style_str :: "(string \<times> string) list \<Rightarrow> string" where
  "style_str styles = join ''; '' (map (\<lambda>(k, v). k @ '': '' @ v) styles)"

definition shadows_of :: "platform \<Rightarrow> effect list \<Rightarrow> string list" where
  "shadows_of P es = filter (\<lambda>e. \<not> contains ''blur'' e) (get_effects_css P es)"

definition text_node_html ::
  "platform \<Rightarrow> (string \<Rightarrow> string option) \<Rightarrow> node_props \<Rightarrow> bbox option \<Rightarrow> error + string" where
  "text_node_html P image_fills nd parent_box =
     (case get_text_styles P image_fills nd of
        None \<Rightarrow> Inl RecursionError
      | Some text_styles \<Rightarrow>
          (let s1 = dict_update (base_styles P (node_bbox nd) parent_box) text_styles
           in case (if fills nd \<noteq> [] \<and> p_type (hd (fills nd)) \<noteq> Some ''SOLID''
                    then (case get_fills_css P image_fills (fills nd) (n_id nd) of
                            None \<Rightarrow> None
                          | Some bg \<Rightarrow>
                              Some (if bg \<noteq> ''transparent'' then dict_set ''background'' bg s1
                                    else s1))
                    else Some s1) of
                None \<Rightarrow> Inl RecursionError
              | Some s2 \<Rightarrow>
                  (let shadows = shadows_of P (effects nd);
                       s3 = (if effects nd \<noteq> [] \<and> shadows \<noteq> []
                             then dict_set ''text-shadow'' (join '', '' shadows) s2 else s2)
                   in Inr (''<div class='' @ dquote @ ''text-node'' @ dquote @ '' style='' @ dquote
                             @ style_str s3 @ dquote @ ''>'' @ characters nd @ ''</div>''))))"

definition container_styles ::
  "platform \<Rightarrow> (string \<Rightarrow> string option) \<Rightarrow> node_props \<Rightarrow> bbox option
     \<Rightarrow> (string \<times> string) list option" where
  "container_styles P image_fills nd parent_box =
     (case (if fills nd \<noteq> []
            then (case get_fills_css P image_fills (fills nd) (n_id nd) of
                    None \<Rightarrow> None
                  | Some bg \<Rightarrow>
                      Some (dict_set ''background'' bg (base_styles P (node_bbox nd) parent_box)))
            else Some (base_styles P (node_bbox nd) parent_box)) of
        None \<Rightarrow> None
      | Some s1 \<Rightarrow>
          (let (border_width, border_style, border_color) = get_strokes_css P nd;
               s2 = (if border_width \<noteq> ''''
                     then dict_set ''border''
                            (border_width @ '' '' @ border_style @ '' '' @ border_color) s1
                     else s1);
               border_radius = get_border_radius P nd;
               s3 = (if border_radius \<noteq> ''0px''
                     then dict_set ''overflow'' ''hidden'' (dict_set ''border-radius'' border_radius s2)
                     else s2);
               shadows = shadows_of P (effects nd);
               s4 = (if effects nd \<noteq> [] \<and> shadows \<noteq> []
                     then dict_set ''box-shadow'' (join '', '' shadows) s3 else s3);
               node_opacity = get_or (opacity nd) (PyFloat 1);
               s5 = (if py_lt node_opacity (PyFloat 1)
                     then dict_set ''opacity'' (py_str P node_opacity) s4 else s4)
           in Some s5))"

definition container_html :: "node_props \<Rightarrow> string \<Rightarrow> string list \<Rightarrow> error + string" where
  "container_html nd styles children_html =
     (case n_type nd of
        None \<Rightarrow> Inl AttributeError
      | Some node_type \<Rightarrow>
          (let class_name = py_lower node_type @ ''-node''
           in if children_html \<noteq> []
              then Inr (''<div class='' @ dquote @ class_name @ dquote @ '' style='' @ dquote
                          @ styles @ dquote @ ''>'' @ newline @ join newline children_html
                          @ newline @ ''</div>'')
              else Inr (''<div class='' @ dquote @ class_name @ dquote @ '' style='' @ dquote
                          @ styles @ dquote @ ''></div>'')))"

text \<open>
  The loop over the children: the first child that raises ends the call; of the others
  the non-empty outputs are kept, in order.
\<close>

fun collect :: "(error + string) list \<Rightarrow> error + string list" where
  "collect [] = Inr []"
| "collect (Inl e # rs) = Inl e"
| "collect (Inr h # rs) =
     (case collect rs of Inl e \<Rightarrow> Inl e | Inr hs \<Rightarrow> Inr (if h \<noteq> [] then h # hs else hs))"

fun node_to_html ::
  "platform \<Rightarrow> (string \<Rightarrow> string option) \<Rightarrow> node \<Rightarrow> bbox option \<Rightarrow> int \<Rightarrow> error + string" where
  "node_to_html P image_fills (Node nd cs) parent_box depth =
     (if \<not> node_visible nd then Inr ''''
      else if \<not> bbox_truthy (node_bbox nd)
      then (case collect (map (\<lambda>child. node_to_html P image_fills child parent_box depth) cs) of
              Inl e \<Rightarrow> Inl e
            | Inr html_parts \<Rightarrow> Inr (join newline html_parts))
      else if n_type nd = Some ''TEXT'' then text_node_html P image_fills nd parent_box
      else (case container_styles P image_fills nd parent_box of
              None \<Rightarrow> Inl RecursionError
            | Some styles \<Rightarrow>
                (case collect (map (\<lambda>child. node_to_html P image_fills child
                                               (Some (node_bbox nd)) (depth + 1)) cs) of
                   Inl e \<Rightarrow> Inl e
                 | Inr children_html \<Rightarrow> container_html nd (style_str styles) children_html)))"

section \<open>The frame collector\<close>

text \<open>
  \<open>frames\<close> is \<open>None\<close> on the outer call, which starts a new list; every recursive call
  appends to the list it is given, and the model returns that list.
\<close>

fun find_frames :: "node \<Rightarrow> node list option \<Rightarrow> node list" where
  "find_frames (Node nd cs) frames =
     fold (\<lambda>child acc. find_frames child (Some acc)) cs
       (if n_type nd = Some ''FRAME'' \<and> node_visible nd
        then get_or frames [] @ [Node nd cs] else get_or frames [])"

section \<open>The order of a document\<close>

text \<open>Depth-first pre-order: a node, then the subtrees of its children from first to last.\<close>

fun preorder :: "node \<Rightarrow> node list" where
  "preorder (Node nd cs) = Node nd cs # concat (map preorder cs)"

definition is_visible_frame :: "node \<Rightarrow> bool" where
  "is_visible_frame n = (n_type (props n) = Some ''FRAME'' \<and> node_visible (props n))"

text \<open>The keys the per-corner lookup probes.\<close>

definition alias_keys :: "string list" where
  "alias_keys = concat (map snd corner_names)"

section \<open>A platform for evaluation\<close>

text \<open>
  \<open>exact_platform\<close> rounds nothing and prints a float's exact decimal expansion (at most
  17 fractional digits, at least one). It agrees with CPython wherever every arithmetic
  result is a binary64 value and the expansion is short, which is so for each input
  evaluated below. \<open>libm_pi\<close> is the binary64 value of \<open>math.pi\<close>. The instance maps
  \<open>math.atan2\<close> to 0; no evaluation on it reaches a gradient.
\<close>

fun frac_digits :: "nat \<Rightarrow> nat \<Rightarrow> nat \<Rightarrow> string" where
  "frac_digits 0 r d = []"
| "frac_digits (Suc k) r d =
     (if r = 0 then [] else digit_char (10 * r div d) # frac_digits k (10 * r mod d) d)"

definition dec_repr :: "rat \<Rightarrow> string" where
  "dec_repr q =
     (let (n, d) = quotient_of q;
          m = nat \<bar>n\<bar>;
          fr = frac_digits 17 (m mod nat d) (nat d)
      in (if n < 0 then ''-'' else '''') @ show_nat (m div nat d) @ ''.''
           @ (if fr = [] then ''0'' else fr))"

text \<open>One decimal place, ties to even.\<close>

definition dec_fmt1 :: "rat \<Rightarrow> string" where
  "dec_fmt1 q =
     (let t = \<bar>q\<bar> * 10;
          f = \<lfloor>t\<rfloor>;
          m = nat (if t - of_int f > 1 / 2 \<or> (t - of_int f = 1 / 2 \<and> odd f) then f + 1 else f)
      in (if q < 0 then ''-'' else '''') @ show_nat (m div 10) @ ''.'' @ [digit_char (m mod 10)])"

definition exact_platform :: platform where
  "exact_platform =
     \<lparr> fl = (\<lambda>q. q), float_repr = dec_repr, float_fmt1 = dec_fmt1,
       libm_atan2 = (\<lambda>y x. 0), libm_pi = 884279719003555 / 281474976710656 \<rparr>"



section \<open>Example documents\<close>

text \<open>The empty dictionary, as a node, a paint and a text style.\<close>

definition empty_style :: text_style where
  "empty_style =
     \<lparr> fontFamily = None, fontSize = None, fontWeight = None, lineHeightPx = None,
       lineHeightPercentFontSize = None, letterSpacing = None, textAlignHorizontal = None,
       textDecoration = None, textCase = None \<rparr>"

definition empty_node :: node_props where
  "empty_node =
     \<lparr> n_type = None, n_id = '''', n_name = '''', n_visible = None, absoluteBoundingBox = None,
       fills = [], strokes = [], strokeWeight = None, effects = [], opacity = None,
       cornerRadius = None, rectangleCornerRadii = None, corner_fields = (\<lambda>k. None),
       characters = '''', style = empty_style \<rparr>"

definition empty_paint :: paint where
  "empty_paint =
     \<lparr> p_type = None, p_visible = None, p_color = None, p_opacity = None,
       gradientStops = None, gradientHandlePositions = None \<rparr>"

definition box :: "int \<Rightarrow> int \<Rightarrow> int \<Rightarrow> int \<Rightarrow> bbox" where
  "box x y w h =
     \<lparr> b_x = Some (PyInt x), b_y = Some (PyInt y), b_width = Some (PyInt w),
       b_height = Some (PyInt h) \<rparr>"

definition no_images :: "string \<Rightarrow> string option" where
  "no_images = (\<lambda>k. None)"




text \<open>
  \<open>{"type": "FRAME", "absoluteBoundingBox": {"x": 100, "y": 200, "width": 300, "height": 400}}\<close>
\<close>

definition root_frame :: node where
  "root_frame =
     Node (empty_node \<lparr> n_type := Some ''FRAME'',
                        absoluteBoundingBox := Some (box 100 200 300 400) \<rparr>) []"

text \<open>Two rectangles, a group without a bounding box around them, and a hidden group.\<close>

definition rect_a :: node where
  "rect_a =
     Node (empty_node \<lparr> n_type := Some ''RECTANGLE'',
                        absoluteBoundingBox := Some (box 110 220 30 40) \<rparr>) []"

definition rect_b :: node where
  "rect_b =
     Node (empty_node \<lparr> n_type := Some ''RECTANGLE'',
                        absoluteBoundingBox := Some (box 150 260 10 20) \<rparr>) []"


definition hidden_group :: node where
  "hidden_group =
     Node (empty_node \<lparr> n_type := Some ''GROUP'', n_visible := Some False,
                        absoluteBoundingBox := Some (box 100 200 300 400) \<rparr>)
       [Node (empty_node \<lparr> n_type := Some ''RECTANGLE'', n_visible := Some True,
                           absoluteBoundingBox := Some (box 110 220 30 40) \<rparr>) []]"

text \<open>A visible frame inside a hidden one.\<close>

definition inner_frame :: node where
  "inner_frame = Node (empty_node \<lparr> n_type := Some ''FRAME'', n_name := ''inner'' \<rparr>) []"

definition hidden_frame :: node where
  "hidden_frame =
     Node (empty_node \<lparr> n_type := Some ''FRAME'', n_name := ''outer'', n_visible := Some False \<rparr>)
       [inner_frame]"

text \<open>
  A rectangle whose only fill is a radial gradient:
  \<open>{"type": "RECTANGLE", "absoluteBoundingBox": {"x": 0, "y": 0, "width": 10, "height": 10},
    "fills": [{"type": "GRADIENT_RADIAL"}]}\<close>
\<close>

definition radial_paint :: paint where
  "radial_paint = empty_paint \<lparr> p_type := Some ''GRADIENT_RADIAL'' \<rparr>"

definition radial_rect :: node where
  "radial_rect =
     Node (empty_node \<lparr> n_type := Some ''RECTANGLE'', absoluteBoundingBox := Some (box 0 0 10 10),
                        fills := [radial_paint] \<rparr>) []"









section \<open>Properties of the tree walker\<close>

lemma collect_skip_empty: "collect (xs @ Inr [] # ys) = collect (xs @ ys)"
  by (induction xs rule: collect.induct) (auto split: sum.splits)


lemma invisible_empty:
  "\<not> node_visible (props n) \<Longrightarrow> node_to_html P imgs n pb d = Inr []"
  by (cases n) simp

text \<open>
  Claim C7. A node whose \<open>visible\<close> flag is false yields the empty string, whatever its
  children, their flags, the reference box and the depth; and as a child, at any place
  among its siblings, it adds nothing to what its parent returns.
\<close>

theorem invisible_node_contributes_nothing:
  assumes "n_visible (props n) = Some False"
  shows "node_to_html P imgs n pb d = Inr ''''
    \<and> node_to_html P imgs (Node nd (before @ n # after)) pb d
        = node_to_html P imgs (Node nd (before @ after)) pb d"
proof -
  from assms have inv: "\<not> node_visible (props n)"
    by (simp add: node_visible_def get_or_def)
  have here: "node_to_html P imgs n q e = Inr []" for q e
    using inv by (rule invisible_empty)
  have skip: "collect (map f (before @ n # after)) = collect (map f (before @ after))"
    if "f n = Inr []" for f :: "node \<Rightarrow> error + string"
    using that collect_skip_empty [of "map f before" "map f after"] by simp
  have step: "collect (map (\<lambda>child. node_to_html P imgs child q e) (before @ n # after))
          = collect (map (\<lambda>child. node_to_html P imgs child q e) (before @ after))" for q e
    by (rule skip) (rule here)
  have "node_to_html P imgs (Node nd (before @ n # after)) pb d
        = node_to_html P imgs (Node nd (before @ after)) pb d"
    unfolding node_to_html.simps step by (rule refl)
  with here show ?thesis
    by simp
qed

theorem invisible_node_contributes_nothing_witness:
  "n_visible (props hidden_group) = Some False
   \<and> node_to_html exact_platform no_images hidden_group None 0 = Inr ''''
   \<and> node_to_html exact_platform no_images
        (Node (props root_frame) ([rect_a] @ hidden_group # [rect_b])) None 0
      = node_to_html exact_platform no_images (Node (props root_frame) ([rect_a] @ [rect_b])) None 0"
proof -
  have h: "n_visible (props hidden_group) = Some False"
    by (simp add: hidden_group_def)
  show ?thesis
    using h invisible_node_contributes_nothing [OF h, of exact_platform no_images None 0
        "props root_frame" "[rect_a]" "[rect_b]"]
    by simp
qed



section \<open>Properties of the frame collector\<close>

lemma fold_find_frames:
  "(\<And>c acc. c \<in> set cs \<Longrightarrow> find_frames c (Some acc) = acc @ filter p (preorder c)) \<Longrightarrow>
   fold (\<lambda>child acc. find_frames child (Some acc)) cs a
     = a @ filter p (concat (map preorder cs))"
  by (induction cs arbitrary: a) auto

lemma is_visible_frame_Node:
  "is_visible_frame (Node nd cs) = (n_type nd = Some ''FRAME'' \<and> node_visible nd)"
  by (simp add: is_visible_frame_def)

lemma find_frames_acc:
  "find_frames n fr = get_or fr [] @ filter is_visible_frame (preorder n)"
proof (induction n arbitrary: fr)
  case (Node nd cs)
  have step: "fold (\<lambda>child acc. find_frames child (Some acc)) cs a
     = a @ filter is_visible_frame (concat (map preorder cs))" for a
    by (rule fold_find_frames) (simp add: Node.IH get_or_def)
  show ?case
    by (simp add: step is_visible_frame_Node)
qed

text \<open>
  Claim C8. \<open>find_frames\<close> returns the nodes of type \<open>FRAME\<close> whose own flag is visible,
  in depth-first pre-order, and enters the children of every node; so a visible frame
  under a hidden node is collected although the tree walker returns nothing for that
  hidden node.
\<close>

theorem find_frames_preorder:
  "find_frames n None = filter is_visible_frame (preorder n)
   \<and> (\<not> node_visible (props n) \<and> f \<in> set (preorder n) \<and> is_visible_frame f
        \<longrightarrow> f \<in> set (find_frames n None) \<and> node_to_html P imgs n pb d = Inr '''')"
  by (simp add: find_frames_acc get_or_def invisible_empty)

theorem find_frames_preorder_witness:
  "\<not> node_visible (props hidden_frame) \<and> inner_frame \<in> set (preorder hidden_frame)
   \<and> is_visible_frame inner_frame
   \<and> find_frames hidden_frame None = [inner_frame]
   \<and> node_to_html exact_platform no_images hidden_frame None 0 = Inr ''''"
proof -
  have h: "\<not> node_visible (props hidden_frame)" "inner_frame \<in> set (preorder hidden_frame)"
    "is_visible_frame inner_frame"
    by (simp_all add: hidden_frame_def inner_frame_def empty_node_def node_visible_def
        get_or_def is_visible_frame_def)
  have "filter is_visible_frame (preorder hidden_frame) = [inner_frame]"
    using h(3) by (simp add: hidden_frame_def is_visible_frame_def node_visible_def get_or_def
        inner_frame_def)
  then show ?thesis
    using h find_frames_preorder [of hidden_frame inner_frame exact_platform no_images None 0]
    by simp
qed

section \<open>Properties of corner-radius resolution\<close>

lemma four_radii_css_cases:
  "four_radii_css P [a, b, c, d] =
     (if py_eq b a \<and> py_eq c a \<and> py_eq d a
      then (if py_eq a (PyInt 0) then ''0px'' else py_str P a @ ''px'')
      else py_str P a @ ''px '' @ py_str P b @ ''px '' @ py_str P c @ ''px ''
             @ py_str P d @ ''px'')"
  by (simp add: four_radii_css_def py_eq_def)

lemma first_present_priority:
  "\<forall>k'\<in>set skipped. f k' = None \<Longrightarrow> f k = Some v \<Longrightarrow>
   first_present f (skipped @ k # rest) = Some v"
  by (induction skipped) auto

lemma first_present_none:
  "first_present f ks = None \<longleftrightarrow> (\<forall>k\<in>set ks. f k = None)"
  by (induction ks) (auto split: option.splits)

lemma corner_lookup_eq:
  "corner_lookup nd =
     [first_present (corner_fields nd)
        [''rectangleCornerTopLeftRadius'', ''topLeftRadius'', ''cornerTopLeftRadius''],
      first_present (corner_fields nd)
        [''rectangleCornerTopRightRadius'', ''topRightRadius'', ''cornerTopRightRadius''],
      first_present (corner_fields nd)
        [''rectangleCornerBottomRightRadius'', ''bottomRightRadius'', ''cornerBottomRightRadius''],
      first_present (corner_fields nd)
        [''rectangleCornerBottomLeftRadius'', ''bottomLeftRadius'', ''cornerBottomLeftRadius'']]"
  by (simp add: corner_lookup_def corners_def corner_names_def get_or_def)

lemma alias_keys_eq:
  "alias_keys =
     [''rectangleCornerTopLeftRadius'', ''topLeftRadius'', ''cornerTopLeftRadius'',
      ''rectangleCornerTopRightRadius'', ''topRightRadius'', ''cornerTopRightRadius'',
      ''rectangleCornerBottomRightRadius'', ''bottomRightRadius'', ''cornerBottomRightRadius'',
      ''rectangleCornerBottomLeftRadius'', ''bottomLeftRadius'', ''cornerBottomLeftRadius'']"
  by (simp add: alias_keys_def corner_names_def)

lemma no_alias_iff:
  "list_ex (\<lambda>v. v \<noteq> None) (corner_lookup nd) \<longleftrightarrow> (\<exists>k\<in>set alias_keys. corner_fields nd k \<noteq> None)"
  unfolding corner_lookup_eq alias_keys_eq
  by (simp add: first_present_none [THEN iffD1] split: option.splits)

text \<open>
  Claim C2. The uniform field wins; without it a four-element array is used; otherwise
  each corner takes the first of its three names the node has, in the fixed order, and
  0 when it has none. Four equal values give the single token (\<open>0px\<close> for zero), unequal
  ones the four tokens top-left, top-right, bottom-right, bottom-left, and a node with
  none of the three forms gives \<open>0px\<close>.
\<close>

theorem get_border_radius_precedence:
  "(cornerRadius nd = Some r \<longrightarrow> get_border_radius P nd = py_str P r @ ''px'')
   \<and> (cornerRadius nd = None \<and> rectangleCornerRadii nd = Some [tleft, tright, bright, bleft] \<longrightarrow>
        get_border_radius P nd = four_radii_css P [tleft, tright, bright, bleft])
   \<and> (cornerRadius nd = None \<and> (\<forall>rs. rectangleCornerRadii nd = Some rs \<longrightarrow> length rs \<noteq> 4) \<longrightarrow>
        get_border_radius P nd =
          (if \<forall>k\<in>set alias_keys. corner_fields nd k = None then ''0px''
           else four_radii_css P (map (\<lambda>v. get_or v (PyInt 0)) (corner_lookup nd))))
   \<and> corner_lookup nd =
        [first_present (corner_fields nd)
           [''rectangleCornerTopLeftRadius'', ''topLeftRadius'', ''cornerTopLeftRadius''],
         first_present (corner_fields nd)
           [''rectangleCornerTopRightRadius'', ''topRightRadius'', ''cornerTopRightRadius''],
         first_present (corner_fields nd)
           [''rectangleCornerBottomRightRadius'', ''bottomRightRadius'',
            ''cornerBottomRightRadius''],
         first_present (corner_fields nd)
           [''rectangleCornerBottomLeftRadius'', ''bottomLeftRadius'',
            ''cornerBottomLeftRadius'']]
   \<and> ((\<forall>k'\<in>set skipped. f k' = None) \<and> f k = Some v \<longrightarrow>
        first_present f (skipped @ k # rest) = Some v)
   \<and> four_radii_css P [a, b, c, d] =
        (if py_eq b a \<and> py_eq c a \<and> py_eq d a
         then (if py_eq a (PyInt 0) then ''0px'' else py_str P a @ ''px'')
         else py_str P a @ ''px '' @ py_str P b @ ''px '' @ py_str P c @ ''px ''
                @ py_str P d @ ''px'')"
proof -
  have uniform: "cornerRadius nd = Some r \<Longrightarrow> get_border_radius P nd = py_str P r @ ''px''"
    by (simp add: get_border_radius_def)
  have array: "cornerRadius nd = None \<Longrightarrow> rectangleCornerRadii nd = Some [tleft, tright, bright, bleft] \<Longrightarrow>
      get_border_radius P nd = four_radii_css P [tleft, tright, bright, bleft]"
    by (simp add: get_border_radius_def)
  have per_corner: "get_border_radius P nd =
      (if \<forall>k\<in>set alias_keys. corner_fields nd k = None then ''0px''
       else four_radii_css P (map (\<lambda>v. get_or v (PyInt 0)) (corner_lookup nd)))"
    if "cornerRadius nd = None" and "\<forall>rs. rectangleCornerRadii nd = Some rs \<longrightarrow> length rs \<noteq> 4"
  proof -
    from that have "get_border_radius P nd = alias_border_radius P nd"
      by (simp add: get_border_radius_def split: option.splits)
    then show ?thesis
      using no_alias_iff [of nd] by (simp add: alias_border_radius_def Let_def)
  qed
  show ?thesis
    using uniform array per_corner corner_lookup_eq [of nd]
      first_present_priority [of skipped f k v rest] four_radii_css_cases [of P a b c d]
    by blast
qed

lemma show_small:
  "show_int 0 = ''0''" "show_int 1 = ''1''" "show_int 2 = ''2''" "show_int 3 = ''3''"
  "show_int 4 = ''4''" "show_int 5 = ''5''" "show_int 7 = ''7''" "show_int 10 = ''10''"
  by (simp_all add: show_int_def show_nat.simps digit_char_def)

theorem get_border_radius_precedence_witness:
  "get_border_radius exact_platform (empty_node \<lparr> cornerRadius := Some (PyInt 10) \<rparr>) = ''10px''
   \<and> get_border_radius exact_platform
        (empty_node \<lparr> rectangleCornerRadii := Some [PyInt 5, PyInt 5, PyInt 5, PyInt 5] \<rparr>) = ''5px''
   \<and> get_border_radius exact_platform
        (empty_node \<lparr> rectangleCornerRadii := Some [PyInt 1, PyInt 2, PyInt 3, PyInt 4] \<rparr>)
      = ''1px 2px 3px 4px''
   \<and> get_border_radius exact_platform empty_node = ''0px''
   \<and> first_present [''topLeftRadius'' \<mapsto> PyInt 3, ''rectangleCornerTopLeftRadius'' \<mapsto> PyInt 7]
        ([] @ ''rectangleCornerTopLeftRadius'' # [''topLeftRadius'', ''cornerTopLeftRadius''])
      = Some (PyInt 7)"
proof -
  note uniform = get_border_radius_precedence [THEN conjunct1, rule_format]
  note array = get_border_radius_precedence [THEN conjunct2, THEN conjunct1, rule_format]
  note per_corner =
    get_border_radius_precedence [THEN conjunct2, THEN conjunct2, THEN conjunct1, rule_format]
  note priority =
    get_border_radius_precedence [THEN conjunct2, THEN conjunct2, THEN conjunct2, THEN conjunct2,
      THEN conjunct1, rule_format]
  note four =
    get_border_radius_precedence [THEN conjunct2, THEN conjunct2, THEN conjunct2, THEN conjunct2,
      THEN conjunct2]
  have "get_border_radius exact_platform (empty_node \<lparr> cornerRadius := Some (PyInt 10) \<rparr>)
          = py_str exact_platform (PyInt 10) @ ''px''"
    by (rule uniform) simp
  then have one: "get_border_radius exact_platform (empty_node \<lparr> cornerRadius := Some (PyInt 10) \<rparr>)
          = ''10px''"
    by (simp add: show_small)
  have "get_border_radius exact_platform
          (empty_node \<lparr> rectangleCornerRadii := Some [PyInt 5, PyInt 5, PyInt 5, PyInt 5] \<rparr>)
        = four_radii_css exact_platform [PyInt 5, PyInt 5, PyInt 5, PyInt 5]"
    by (rule array) (simp add: empty_node_def)
  then have two: "get_border_radius exact_platform
          (empty_node \<lparr> rectangleCornerRadii := Some [PyInt 5, PyInt 5, PyInt 5, PyInt 5] \<rparr>)
        = ''5px''"
    by (simp add: four py_eq_def show_small)
  have "get_border_radius exact_platform
          (empty_node \<lparr> rectangleCornerRadii := Some [PyInt 1, PyInt 2, PyInt 3, PyInt 4] \<rparr>)
        = four_radii_css exact_platform [PyInt 1, PyInt 2, PyInt 3, PyInt 4]"
    by (rule array) (simp add: empty_node_def)
  then have three: "get_border_radius exact_platform
          (empty_node \<lparr> rectangleCornerRadii := Some [PyInt 1, PyInt 2, PyInt 3, PyInt 4] \<rparr>)
        = ''1px 2px 3px 4px''"
    by (simp add: four py_eq_def show_small)
  have "get_border_radius exact_platform empty_node =
      (if \<forall>k\<in>set alias_keys. corner_fields empty_node k = None then ''0px''
       else four_radii_css exact_platform
              (map (\<lambda>v. get_or v (PyInt 0)) (corner_lookup empty_node)))"
    by (rule per_corner) (simp add: empty_node_def)
  then have none: "get_border_radius exact_platform empty_node = ''0px''"
    by (simp add: empty_node_def)
  have first: "first_present
        [''topLeftRadius'' \<mapsto> PyInt 3, ''rectangleCornerTopLeftRadius'' \<mapsto> PyInt 7]
        ([] @ ''rectangleCornerTopLeftRadius'' # [''topLeftRadius'', ''cornerTopLeftRadius''])
      = Some (PyInt 7)"
    by (rule priority) simp
  from one two three none first show ?thesis
    by blast
qed

text \<open>
  Claim C10. An array whose length is not 4 is ignored: the result is that of the node
  without the array, which without a uniform field is the per-corner lookup, and
  \<open>0px\<close> when the node has none of the per-corner names either.
\<close>

theorem short_radii_array_ignored:
  "rectangleCornerRadii nd = Some rs \<and> length rs \<noteq> 4 \<longrightarrow>
     get_border_radius P nd = get_border_radius P (nd \<lparr> rectangleCornerRadii := None \<rparr>)
     \<and> (cornerRadius nd = None \<longrightarrow> get_border_radius P nd = alias_border_radius P nd)
     \<and> (cornerRadius nd = None \<and> (\<forall>k\<in>set alias_keys. corner_fields nd k = None) \<longrightarrow>
          get_border_radius P nd = ''0px'')"
proof (intro impI, elim conjE)
  assume rs: "rectangleCornerRadii nd = Some rs" "length rs \<noteq> 4"
  have same: "alias_border_radius P (nd \<lparr> rectangleCornerRadii := None \<rparr>) = alias_border_radius P nd"
    by (simp add: alias_border_radius_def corner_lookup_def)
  have a: "get_border_radius P nd = get_border_radius P (nd \<lparr> rectangleCornerRadii := None \<rparr>)"
    using rs same by (simp add: get_border_radius_def split: option.splits)
  have b: "cornerRadius nd = None \<Longrightarrow> get_border_radius P nd = alias_border_radius P nd"
    using rs by (simp add: get_border_radius_def)
  have c: "get_border_radius P nd = ''0px''"
    if "cornerRadius nd = None" "\<forall>k\<in>set alias_keys. corner_fields nd k = None"
    using b [OF that(1)] that(2) no_alias_iff [of nd] by (simp add: alias_border_radius_def Let_def)
  from a b c show "get_border_radius P nd = get_border_radius P (nd \<lparr> rectangleCornerRadii := None \<rparr>)
     \<and> (cornerRadius nd = None \<longrightarrow> get_border_radius P nd = alias_border_radius P nd)
     \<and> (cornerRadius nd = None \<and> (\<forall>k\<in>set alias_keys. corner_fields nd k = None) \<longrightarrow>
          get_border_radius P nd = ''0px'')"
    by blast
qed

theorem short_radii_array_ignored_witness:
  "rectangleCornerRadii (empty_node \<lparr> rectangleCornerRadii := Some [PyInt 1, PyInt 2, PyInt 3] \<rparr>)
     = Some [PyInt 1, PyInt 2, PyInt 3]
   \<and> length [PyInt 1, PyInt 2, PyInt 3] \<noteq> 4
   \<and> get_border_radius exact_platform
        (empty_node \<lparr> rectangleCornerRadii := Some [PyInt 1, PyInt 2, PyInt 3] \<rparr>) = ''0px''"
proof -
  let ?nd = "empty_node \<lparr> rectangleCornerRadii := Some [PyInt 1, PyInt 2, PyInt 3] \<rparr>"
  have h: "rectangleCornerRadii ?nd = Some [PyInt 1, PyInt 2, PyInt 3]
      \<and> length [PyInt 1, PyInt 2, PyInt 3] \<noteq> 4"
    by simp
  have bare: "cornerRadius ?nd = None \<and> (\<forall>k\<in>set alias_keys. corner_fields ?nd k = None)"
    by (simp add: empty_node_def)
  from short_radii_array_ignored [of ?nd "[PyInt 1, PyInt 2, PyInt 3]" exact_platform] h
  have "cornerRadius ?nd = None \<and> (\<forall>k\<in>set alias_keys. corner_fields ?nd k = None) \<longrightarrow>
      get_border_radius exact_platform ?nd = ''0px''"
    by blast
  with bare have "get_border_radius exact_platform ?nd = ''0px''"
    by blast
  with h show ?thesis
    by blast
qed

section \<open>Properties of gradient resolution\<close>








section \<open>Properties of fill resolution\<close>

lemma unsupported_returns_nothing:
  assumes "get_fills_css P imgs fs nid = Some y"
  shows "\<not> (\<exists>f. fs = [f] \<and> paint_visible f \<and> \<not> supported_kind f)"
proof -
  have "\<not> (\<exists>f. snd (fst (((P, imgs), fs), nid)) = [f] \<and> paint_visible f \<and> \<not> supported_kind f)"
    by (rule get_fills_css.raw_induct
          [where Pa = "\<lambda>x y. \<not> (\<exists>f. snd (fst x) = [f] \<and> paint_visible f \<and> \<not> supported_kind f)",
           OF _ assms])
       (auto simp: supported_kind_def split: if_splits)
  then show ?thesis
    by simp
qed

lemma get_fills_css_unsupported:
  "paint_visible f \<Longrightarrow> \<not> supported_kind f \<Longrightarrow> get_fills_css P imgs [f] nid = None"
  using unsupported_returns_nothing [of P imgs "[f]" nid] by (cases "get_fills_css P imgs [f] nid") auto








section \<open>Properties of the color model\<close>









section \<open>Where the code departs from its description\<close>

text \<open>
  Claim C1. The first call, with no reference box, takes the branch
  \<open>rel_x = x; rel_y = y; parent_box = bbox\<close>: the node is made its own reference only
  after its offsets were set to the absolute coordinates, and \<open>parent_box\<close> is not read
  again. A root frame at (100, 200) is therefore emitted with \<open>left: 100px; top: 200px\<close>,
  not at the origin.
\<close>

theorem root_frame_keeps_absolute_position:
  "node_to_html exact_platform no_images root_frame None 0 =
     Inr (''<div class='' @ dquote @ ''frame-node'' @ dquote @ '' style='' @ dquote
          @ ''position: absolute; left: 100px; top: 200px; width: 300px; height: 400px''
          @ dquote @ ''></div>'')"
  by code_simp

text \<open>
  Claim C9. A single visible fill of a kind other than \<open>SOLID\<close>, \<open>GRADIENT_LINEAR\<close> and
  \<open>IMAGE\<close> falls out of the \<open>if len(visible_fills) == 1\<close> block into the line written for
  several fills, which calls \<open>get_fills_css\<close> with the same one-element list again. The
  call never returns on any platform, and the tree walker ends with \<open>RecursionError\<close> on a
  node that has such a fill.
\<close>

theorem radial_fill_never_returns:
  "get_fills_css P image_fills [radial_paint] node_id = None
   \<and> node_to_html P image_fills radial_rect parent_box depth = Inl RecursionError"
proof -
  have vis: "paint_visible radial_paint"
    by (simp add: radial_paint_def empty_paint_def paint_visible_def get_or_def)
  have kind: "\<not> supported_kind radial_paint"
    by (simp add: radial_paint_def empty_paint_def supported_kind_def)
  have none: "get_fills_css P image_fills [radial_paint] nid = None" for nid
    using vis kind by (rule get_fills_css_unsupported)
  have "container_styles P image_fills (props radial_rect) parent_box = None"
    by (simp add: container_styles_def radial_rect_def none)
  then have "node_to_html P image_fills radial_rect parent_box depth = Inl RecursionError"
    by (simp add: radial_rect_def empty_node_def node_visible_def node_bbox_def bbox_truthy_def
        box_def get_or_def)
  with none show ?thesis
    by simp
qed

end
